theory Spec2Isabelle
  imports Complex_Main
begin

section \<open>The angle-of-attack UDF (aoa\_udf.c)\<close>

text \<open>
  A shallow embedding of \<^verbatim>\<open>aoa_udf.c\<close>. The solver's type \<^verbatim>\<open>real\<close> and C's
  \<^verbatim>\<open>double\<close> are idealised to the real numbers, so the casts \<^verbatim>\<open>(real)\<close> and
  \<^verbatim>\<open>(double)\<close> are the identity and rounding is not modelled; a division by zero, whose
  result in C is no real number, gives no value. The solver, the C library
  and the file system are an environment (\<open>host\<close>) that answers each call the code makes to
  them; the static variables of the file, the results file and the console are the state
  (\<open>world\<close>) that the functions of the file transform.
\<close>

subsection \<open>The macros of the section USER EDITS\<close>

record config =
  SURFACE_ZONE_ID :: int
  UINF :: real
  RHO :: real
  AREF :: real
  LREF :: real

definition user_edits :: config where
  "user_edits = \<lparr>SURFACE_ZONE_ID = 5, UINF = 16.0, RHO = 1.225, AREF = 0.4, LREF = 0.435\<rparr>"

definition PI :: real where
  "PI = 3.14159265358979323846"

subsection \<open>Data\<close>

text \<open>Arrays of \<^verbatim>\<open>ND_ND\<close> reals, for a three-dimensional build (\<^verbatim>\<open>ND_ND\<close> = 3).\<close>

type_synonym vec3 = "real \<times> real \<times> real"

text \<open>A \<^verbatim>\<open>Thread *\<close> that is not \<^verbatim>\<open>NULL\<close> is a handle.\<close>

type_synonym thread = int

text \<open>
  The fourteen numbers that one invocation prints, in the order of the format string. A
  coefficient is the result of a division: it is \<open>None\<close> when the quotient of C is not a real
  number (see \<open>c_quotient\<close> below).
\<close>

record result_row =
  r_aoa :: real
  r_Fx :: real
  r_Fy :: real
  r_Fz :: real
  r_Fd :: real
  r_Fl :: real
  r_Cd :: "real option"
  r_Cl :: "real option"
  r_Mx :: real
  r_My :: real
  r_Mz :: real
  r_Cmx :: "real option"
  r_Cmy :: "real option"
  r_Cmz :: "real option"

text \<open>
  A line of \<^verbatim>\<open>aoa_results.txt\<close> is a sequence of tab-separated fields: the column names
  of the header, or the fourteen numbers of a row (their rendering by \<^verbatim>\<open>%g\<close> is not
  modelled).
\<close>

datatype line = Header_line "string list" | Data_line result_row

definition header :: line where
  "header = Header_line
     [''AoA_deg'', ''Fx[N]'', ''Fy[N]'', ''Fz[N]'', ''Fd[N]'', ''Fl[N]'', ''Cd'', ''Cl'',
      ''Mx[Nm]'', ''My[Nm]'', ''Mz[Nm]'', ''Cmx'', ''Cmy'', ''Cmz'']"

text \<open>
  What \<^verbatim>\<open>Message\<close> prints on the console: the error
  \<^verbatim>\<open>aoa_udf: ERROR - zone id %d not found. Edit SURFACE_ZONE_ID.\<close> with the zone
  identifier, or the summary \<^verbatim>\<open>AoA %g deg: Fx=%g ...\<close> with the fourteen numbers.
\<close>

datatype message = Zone_not_found int | Summary result_row

text \<open>
  The outcome of \<^verbatim>\<open>fscanf(fp, "%lf", &tmp)\<close>: the value it returns and the content of
  \<^verbatim>\<open>tmp\<close> afterwards (meaningful only when one item was converted).
\<close>

record fscanf_result =
  converted :: int
  tmp :: real

text \<open>
  The environment of one call:
  \<^item> \<open>aoa_txt\<close>: \<open>None\<close> when \<^verbatim>\<open>fopen("aoa.txt", "r")\<close> returns \<^verbatim>\<open>NULL\<close>, otherwise what
    \<^verbatim>\<open>fscanf\<close> finds in the file;
  \<^item> \<open>Lookup_Thread\<close>: the thread of a zone identifier in the domain \<^verbatim>\<open>Get_Domain(1)\<close>,
    \<open>None\<close> for \<^verbatim>\<open>NULL\<close>;
  \<^item> \<open>Compute_Force_And_Moment\<close>: the force and the moment that the solver stores in the
    arrays \<^verbatim>\<open>force\<close> and \<^verbatim>\<open>moment\<close> for a thread and a reference point;
  \<^item> \<open>results_txt_opens\<close>: whether \<^verbatim>\<open>fopen("aoa_results.txt", "a")\<close> succeeds.
\<close>

record host =
  aoa_txt :: "fscanf_result option"
  Lookup_Thread :: "int \<Rightarrow> thread option"
  Compute_Force_And_Moment :: "thread \<Rightarrow> vec3 \<Rightarrow> vec3 \<times> vec3"
  results_txt_opens :: bool

text \<open>
  The state: the two static variables, the lines of \<^verbatim>\<open>aoa_results.txt\<close> and the
  messages printed so far.
\<close>

record world =
  aoa_deg :: real
  header_written :: int
  aoa_results_txt :: "line list"
  console :: "message list"

text \<open>
  A process starts with the initialisers of the static variables (\<^verbatim>\<open>aoa_deg = 0.0\<close>,
  \<^verbatim>\<open>header_written = 0\<close>) and with the results file as earlier processes left it.
\<close>

definition process_start :: "line list \<Rightarrow> world" where
  "process_start ledger =
     \<lparr>aoa_deg = 0.0, header_written = 0, aoa_results_txt = ledger, console = []\<rparr>"

subsection \<open>read\_aoa\_from\_file\<close>

text \<open>The function returns \<^verbatim>\<open>void\<close>: its result is the unit value and the new state.\<close>

definition read_aoa_from_file :: "host \<Rightarrow> world \<Rightarrow> unit \<times> world" where
  "read_aoa_from_file h s =
     (case aoa_txt h of
        Some fp \<Rightarrow>
          if converted fp = 1 then ((), s\<lparr>aoa_deg := tmp fp\<rparr>) else ((), s)
      | None \<Rightarrow> ((), s))"

subsection \<open>compute\_forces\_and\_write\<close>

text \<open>Step 5: the decomposition into drag and lift.\<close>

definition drag_lift :: "real \<Rightarrow> real \<Rightarrow> real \<Rightarrow> real \<times> real" where
  "drag_lift a_rad Fx Fy =
     (Fx * cos a_rad + Fy * sin a_rad, - Fx * sin a_rad + Fy * cos a_rad)"

text \<open>Step 6: the dynamic pressure.\<close>

definition qinf :: "config \<Rightarrow> real" where
  "qinf c = 0.5 * RHO c * UINF c * UINF c"

text \<open>
  The operator \<^verbatim>\<open>/\<close> of C on two reals. With a denominator of zero the quotient of C is an
  infinity or a NaN, which is no real number: the result is \<open>None\<close>.
\<close>

definition c_quotient :: "real \<Rightarrow> real \<Rightarrow> real option" where
  "c_quotient x y = (if y = 0 then None else Some (x / y))"

text \<open>Step 7: the coefficients \<open>(Cd, Cl, Cmx, Cmy, Cmz)\<close>.\<close>

definition coefficients ::
  "config \<Rightarrow> real \<Rightarrow> real \<Rightarrow> vec3 \<Rightarrow>
     real option \<times> real option \<times> real option \<times> real option \<times> real option" where
  "coefficients c Fd Fl moment =
     (case moment of (Mx, My, Mz) \<Rightarrow>
        if qinf c * AREF c \<noteq> 0.0
        then (c_quotient Fd (qinf c * AREF c),
              c_quotient Fl (qinf c * AREF c),
              c_quotient Mx (qinf c * AREF c * LREF c),
              c_quotient My (qinf c * AREF c * LREF c),
              c_quotient Mz (qinf c * AREF c * LREF c))
        else (Some 0.0, Some 0.0, Some 0.0, Some 0.0, Some 0.0))"

text \<open>
  Steps 5 to 7 together: the numbers of the row for the angle in degrees, the angle in
  radians, the force and the moment.
\<close>

definition reduce :: "config \<Rightarrow> real \<Rightarrow> real \<Rightarrow> vec3 \<Rightarrow> vec3 \<Rightarrow> result_row" where
  "reduce c aoa a_rad force moment =
     (case force of (Fx, Fy, Fz) \<Rightarrow>
      case moment of (Mx, My, Mz) \<Rightarrow>
      case drag_lift a_rad Fx Fy of (Fd, Fl) \<Rightarrow>
      case coefficients c Fd Fl moment of (Cd, Cl, Cmx, Cmy, Cmz) \<Rightarrow>
        \<lparr>r_aoa = aoa, r_Fx = Fx, r_Fy = Fy, r_Fz = Fz, r_Fd = Fd, r_Fl = Fl,
         r_Cd = Cd, r_Cl = Cl, r_Mx = Mx, r_My = My, r_Mz = Mz,
         r_Cmx = Cmx, r_Cmy = Cmy, r_Cmz = Cmz\<rparr>)"

text \<open>
  Step 8: the append to \<^verbatim>\<open>aoa_results.txt\<close>, with the static variable
  \<^verbatim>\<open>header_written\<close> of the block.
\<close>

definition write_row :: "host \<Rightarrow> result_row \<Rightarrow> world \<Rightarrow> world" where
  "write_row h row s =
     (if results_txt_opens h
      then (if header_written s = 0
            then s\<lparr>aoa_results_txt := aoa_results_txt s @ [header, Data_line row],
                   header_written := 1\<rparr>
            else s\<lparr>aoa_results_txt := aoa_results_txt s @ [Data_line row]\<rparr>)
      else s)"

definition Message :: "message \<Rightarrow> world \<Rightarrow> world" where
  "Message m s = s\<lparr>console := console s @ [m]\<rparr>"

text \<open>
  The function defined by \<^verbatim>\<open>DEFINE_ON_DEMAND\<close>, which returns \<^verbatim>\<open>void\<close>: steps 1 and 2,
  the return when the zone is not found, then steps 3 to 8 and the summary.
\<close>

definition compute_forces_and_write :: "config \<Rightarrow> host \<Rightarrow> world \<Rightarrow> unit \<times> world" where
  "compute_forces_and_write c h s0 =
     (let s = snd (read_aoa_from_file h s0);
          a_rad = aoa_deg s * PI / 180.0
      in case Lookup_Thread h (SURFACE_ZONE_ID c) of
           None \<Rightarrow> ((), Message (Zone_not_found (SURFACE_ZONE_ID c)) s)
         | Some t_airfoil \<Rightarrow>
             (let cg = (0.25 * LREF c, 0.0, 0.0);
                  (force, moment) = Compute_Force_And_Moment h t_airfoil cg;
                  row = reduce c (aoa_deg s) a_rad force moment
              in ((), Message (Summary row) (write_row h row s))))"

subsection \<open>A process: successive invocations on the static variables\<close>

fun run :: "config \<Rightarrow> host list \<Rightarrow> world \<Rightarrow> world" where
  "run c [] s = s"
| "run c (h # hs) s = run c hs (snd (compute_forces_and_write c h s))"

text \<open>
  An invocation gets to the \<^verbatim>\<open>fprintf\<close> calls of step 8 when the zone is found and the
  results file opens.
\<close>

definition reaches_append :: "config \<Rightarrow> host \<Rightarrow> bool" where
  "reaches_append c h = (Lookup_Thread h (SURFACE_ZONE_ID c) \<noteq> None \<and> results_txt_opens h)"

definition is_header :: "line \<Rightarrow> bool" where
  "is_header l = (case l of Header_line _ \<Rightarrow> True | Data_line _ \<Rightarrow> False)"

subsection \<open>Sample configurations and environments\<close>

text \<open>The macros as the file has them, but with a reference area of zero.\<close>

definition zero_area :: config where
  "zero_area = user_edits\<lparr>AREF := 0.0\<rparr>"

text \<open>
  An environment in which zone 5 exists, the solver answers the force \<open>(3, 4, 0)\<close> and the
  moment \<open>(0, 2, 0)\<close>, and the two files are as given.
\<close>

definition sample_host :: "fscanf_result option \<Rightarrow> bool \<Rightarrow> host" where
  "sample_host file opens =
     \<lparr>aoa_txt = file,
      Lookup_Thread = (\<lambda>zone. if zone = 5 then Some 1 else None),
      Compute_Force_And_Moment = (\<lambda>t cg. ((3, 4, 0), (0, 2, 0))),
      results_txt_opens = opens\<rparr>"

text \<open>The same environment without any zone.\<close>

definition no_zone_host :: "fscanf_result option \<Rightarrow> bool \<Rightarrow> host" where
  "no_zone_host file opens = (sample_host file opens)\<lparr>Lookup_Thread := (\<lambda>zone. None)\<rparr>"

text \<open>An \<^verbatim>\<open>aoa.txt\<close> whose first token is the number \<open>v\<close>.\<close>

definition aoa_file :: "real \<Rightarrow> fscanf_result option" where
  "aoa_file v = Some \<lparr>converted = 1, tmp = v\<rparr>"

section \<open>Properties\<close>

subsection \<open>Auxiliary facts\<close>

lemma read_aoa_other_fields:
  "header_written (snd (read_aoa_from_file h s)) = header_written s"
  "aoa_results_txt (snd (read_aoa_from_file h s)) = aoa_results_txt s"
  "console (snd (read_aoa_from_file h s)) = console s"
  by (simp_all add: read_aoa_from_file_def split: option.splits)

lemma process_start_fields:
  "header_written (process_start ledger) = 0"
  "aoa_results_txt (process_start ledger) = ledger"
  "console (process_start ledger) = []"
  "aoa_deg (process_start ledger) = 0"
  by (simp_all add: process_start_def)

lemma Message_fields:
  "aoa_deg (Message m s) = aoa_deg s"
  "header_written (Message m s) = header_written s"
  "aoa_results_txt (Message m s) = aoa_results_txt s"
  "console (Message m s) = console s @ [m]"
  by (simp_all add: Message_def)

lemma write_row_aoa: "aoa_deg (write_row h row s) = aoa_deg s"
  by (simp add: write_row_def)

lemma write_row_console: "console (write_row h row s) = console s"
  by (simp add: write_row_def)

lemma cfw_not_found:
  "Lookup_Thread h (SURFACE_ZONE_ID c) = None \<Longrightarrow>
   compute_forces_and_write c h s =
     ((), Message (Zone_not_found (SURFACE_ZONE_ID c)) (snd (read_aoa_from_file h s)))"
  by (simp add: compute_forces_and_write_def Let_def)

lemma cfw_found:
  "Lookup_Thread h (SURFACE_ZONE_ID c) = Some t \<Longrightarrow>
   Compute_Force_And_Moment h t (0.25 * LREF c, 0, 0) = (F, M) \<Longrightarrow>
   a = aoa_deg (snd (read_aoa_from_file h s)) \<Longrightarrow>
   compute_forces_and_write c h s =
     ((), Message (Summary (reduce c a (a * PI / 180) F M))
            (write_row h (reduce c a (a * PI / 180) F M) (snd (read_aoa_from_file h s))))"
  by (simp add: compute_forces_and_write_def Let_def)

text \<open>What an invocation that finds the zone leaves behind.\<close>

lemma cfw_reports:
  assumes "Lookup_Thread h (SURFACE_ZONE_ID c) = Some t"
    and "Compute_Force_And_Moment h t (0.25 * LREF c, 0, 0) = (F, M)"
    and "a = aoa_deg (snd (compute_forces_and_write c h s))"
  shows "a = aoa_deg (snd (read_aoa_from_file h s))"
    and "console (snd (compute_forces_and_write c h s)) =
           console s @ [Summary (reduce c a (a * PI / 180) F M)]"
    and "results_txt_opens h \<Longrightarrow> last (aoa_results_txt (snd (compute_forces_and_write c h s))) =
           Data_line (reduce c a (a * PI / 180) F M)"
proof -
  show a: "a = aoa_deg (snd (read_aoa_from_file h s))"
    using assms(3) by (simp add: cfw_found [OF assms(1,2) refl] Message_fields write_row_aoa)
  show "console (snd (compute_forces_and_write c h s)) =
           console s @ [Summary (reduce c a (a * PI / 180) F M)]"
    by (simp add: cfw_found [OF assms(1,2) a] Message_fields write_row_console
        read_aoa_other_fields)
  show "last (aoa_results_txt (snd (compute_forces_and_write c h s))) =
           Data_line (reduce c a (a * PI / 180) F M)" if "results_txt_opens h"
    using that by (simp add: cfw_found [OF assms(1,2) a] Message_fields write_row_def)
qed

lemma reduce_fields:
  "r_aoa (reduce c a r (Fx, Fy, Fz) (Mx, My, Mz)) = a"
  "r_Fx (reduce c a r (Fx, Fy, Fz) (Mx, My, Mz)) = Fx"
  "r_Fy (reduce c a r (Fx, Fy, Fz) (Mx, My, Mz)) = Fy"
  "r_Fz (reduce c a r (Fx, Fy, Fz) (Mx, My, Mz)) = Fz"
  "r_Mx (reduce c a r (Fx, Fy, Fz) (Mx, My, Mz)) = Mx"
  "r_My (reduce c a r (Fx, Fy, Fz) (Mx, My, Mz)) = My"
  "r_Mz (reduce c a r (Fx, Fy, Fz) (Mx, My, Mz)) = Mz"
  by (simp_all add: reduce_def drag_lift_def coefficients_def)

lemma reduce_drag_lift:
  "r_Fd (reduce c a r (Fx, Fy, Fz) M) = Fx * cos r + Fy * sin r"
  "r_Fl (reduce c a r (Fx, Fy, Fz) M) = - Fx * sin r + Fy * cos r"
  by (simp_all add: reduce_def drag_lift_def coefficients_def split: prod.splits)

lemma reduce_coefficients:
  "qinf c * AREF c \<noteq> 0 \<Longrightarrow>
     r_Cd (reduce c a r (Fx, Fy, Fz) (Mx, My, Mz)) =
       Some (r_Fd (reduce c a r (Fx, Fy, Fz) (Mx, My, Mz)) / (qinf c * AREF c)) \<and>
     r_Cl (reduce c a r (Fx, Fy, Fz) (Mx, My, Mz)) =
       Some (r_Fl (reduce c a r (Fx, Fy, Fz) (Mx, My, Mz)) / (qinf c * AREF c)) \<and>
     r_Cmx (reduce c a r (Fx, Fy, Fz) (Mx, My, Mz)) = c_quotient Mx (qinf c * AREF c * LREF c) \<and>
     r_Cmy (reduce c a r (Fx, Fy, Fz) (Mx, My, Mz)) = c_quotient My (qinf c * AREF c * LREF c) \<and>
     r_Cmz (reduce c a r (Fx, Fy, Fz) (Mx, My, Mz)) = c_quotient Mz (qinf c * AREF c * LREF c)"
  by (simp add: reduce_def drag_lift_def coefficients_def c_quotient_def)

lemma reduce_degenerate:
  "qinf c * AREF c = 0 \<Longrightarrow>
     r_Cd (reduce c a r (Fx, Fy, Fz) (Mx, My, Mz)) = Some 0 \<and>
     r_Cl (reduce c a r (Fx, Fy, Fz) (Mx, My, Mz)) = Some 0 \<and>
     r_Cmx (reduce c a r (Fx, Fy, Fz) (Mx, My, Mz)) = Some 0 \<and>
     r_Cmy (reduce c a r (Fx, Fy, Fz) (Mx, My, Mz)) = Some 0 \<and>
     r_Cmz (reduce c a r (Fx, Fy, Fz) (Mx, My, Mz)) = Some 0"
  by (simp add: reduce_def drag_lift_def coefficients_def)

lemma rotation_square:
  fixes x y k s :: real
  shows "(x * k + y * s)\<^sup>2 + (- x * s + y * k)\<^sup>2 = (x\<^sup>2 + y\<^sup>2) * (s\<^sup>2 + k\<^sup>2)"
  by (simp add: power2_eq_square algebra_simps)

text \<open>
  The constant \<open>PI\<close> and \<open>\<pi>\<close>: partial sums of the series of the arc tangent enclose the two
  arc tangents of Machin's formula.
\<close>

lemma arctan_partial_sums:
  fixes x :: real
  assumes "0 \<le> x" and "x \<le> 1"
  shows "(\<Sum>i<2 * n. (- 1) ^ i * (1 / real (i * 2 + 1) * x ^ (i * 2 + 1))) \<le> arctan x"
    and "arctan x \<le> (\<Sum>i<2 * n + 1. (- 1) ^ i * (1 / real (i * 2 + 1) * x ^ (i * 2 + 1)))"
proof -
  let ?a = "\<lambda>i. 1 / real (i * 2 + 1) * x ^ (i * 2 + 1)"
  from assms have ax: "\<bar>x\<bar> \<le> 1"
    by simp
  have z: "?a \<longlonglongrightarrow> 0"
    by (rule zeroseq_arctan_series [OF ax])
  have p: "0 \<le> ?a i" for i
    using assms(1) by simp
  have m: "?a (Suc i) \<le> ?a i" for i
  proof -
    have "x ^ (Suc i * 2 + 1) \<le> x ^ (i * 2 + 1)"
      using assms by (intro power_decreasing) simp_all
    moreover have "1 / real (Suc i * 2 + 1) \<le> 1 / real (i * 2 + 1)"
      by (simp add: field_simps)
    moreover have "0 \<le> x ^ (Suc i * 2 + 1)"
      using assms(1) by simp
    ultimately show ?thesis
      by (intro mult_mono) simp_all
  qed
  have s: "arctan x = (\<Sum>i. (- 1) ^ i * ?a i)"
    by (rule arctan_series [OF ax])
  from summable_Leibniz'(2) [of ?a, OF z p m, of n] s
  show "(\<Sum>i<2 * n. (- 1) ^ i * ?a i) \<le> arctan x"
    by simp
  from summable_Leibniz'(4) [of ?a, OF z p m, of n] s
  show "arctan x \<le> (\<Sum>i<2 * n + 1. (- 1) ^ i * ?a i)"
    by simp
qed

lemma pi_machin: "pi = 16 * arctan (1 / 5) - 4 * arctan (1 / 239)"
  using machin by simp

lemma pi_lower: "(3.14159265358979323846 :: real) < pi"
proof -
  have a: "(\<Sum>i<2 * 8. (- 1) ^ i * (1 / real (i * 2 + 1) * (1 / 5) ^ (i * 2 + 1)))
      \<le> arctan (1 / 5)"
    by (rule arctan_partial_sums(1)) simp_all
  have b: "arctan (1 / 239) \<le>
      (\<Sum>i<2 * 2 + 1. (- 1) ^ i * (1 / real (i * 2 + 1) * (1 / 239) ^ (i * 2 + 1)))"
    by (rule arctan_partial_sums(2)) simp_all
  have "(3.14159265358979323846 :: real) <
      16 * (\<Sum>i<2 * 8. (- 1) ^ i * (1 / real (i * 2 + 1) * (1 / 5) ^ (i * 2 + 1)))
      - 4 * (\<Sum>i<2 * 2 + 1. (- 1) ^ i * (1 / real (i * 2 + 1) * (1 / 239) ^ (i * 2 + 1)))"
    by (simp add: lessThan_nat_numeral lessThan_Suc power_divide)
  with a b show ?thesis
    unfolding pi_machin by linarith
qed

lemma pi_upper: "pi < (3.14159265358979323847 :: real)"
proof -
  have a: "arctan (1 / 5) \<le>
      (\<Sum>i<2 * 8 + 1. (- 1) ^ i * (1 / real (i * 2 + 1) * (1 / 5) ^ (i * 2 + 1)))"
    by (rule arctan_partial_sums(2)) simp_all
  have b: "(\<Sum>i<2 * 2. (- 1) ^ i * (1 / real (i * 2 + 1) * (1 / 239) ^ (i * 2 + 1)))
      \<le> arctan (1 / 239)"
    by (rule arctan_partial_sums(1)) simp_all
  have "16 * (\<Sum>i<2 * 8 + 1. (- 1) ^ i * (1 / real (i * 2 + 1) * (1 / 5) ^ (i * 2 + 1)))
      - 4 * (\<Sum>i<2 * 2. (- 1) ^ i * (1 / real (i * 2 + 1) * (1 / 239) ^ (i * 2 + 1)))
      < (3.14159265358979323847 :: real)"
    by (simp add: lessThan_nat_numeral lessThan_Suc power_divide)
  with a b show ?thesis
    unfolding pi_machin by linarith
qed

text \<open>The constant of the code is \<open>\<pi>\<close> cut after twenty decimals.\<close>

lemma PI_approximates_pi: "PI < pi" "pi < PI + 1 / 10 ^ 20"
  using pi_lower pi_upper by (simp_all add: PI_def)

text \<open>
  The constant and \<open>\<pi>\<close> lie within half a unit in the last place of the same binary64
  number, \<open>884279719003555 / 2 ^ 48\<close> (numbers between 2 and 4 are \<open>2 ^ 51\<close>-ths): rounded to
  the nearest \<^verbatim>\<open>double\<close>, the literal of the code and \<open>\<pi>\<close> are the same number.
\<close>

lemma PI_rounds_as_pi:
  "\<bar>PI - 884279719003555 / 2 ^ 48\<bar> < 1 / 2 ^ 52"
  "\<bar>pi - 884279719003555 / 2 ^ 48\<bar> < 1 / 2 ^ 52"
proof -
  show "\<bar>PI - 884279719003555 / 2 ^ 48\<bar> < 1 / 2 ^ 52"
    by (simp add: PI_def)
  have "884279719003555 / 2 ^ 48 - 1 / 2 ^ 52 < (3.14159265358979323846 :: real)"
    "(3.14159265358979323847 :: real) < 884279719003555 / 2 ^ 48 + 1 / 2 ^ 52"
    by simp_all
  with pi_lower pi_upper show "\<bar>pi - 884279719003555 / 2 ^ 48\<bar> < 1 / 2 ^ 52"
    by linarith
qed

text \<open>The sine and the cosine change by no more than their argument.\<close>

lemma sin_cos_lipschitz:
  fixes x y :: real
  shows "\<bar>sin x - sin y\<bar> \<le> \<bar>x - y\<bar>" and "\<bar>cos x - cos y\<bar> \<le> \<bar>x - y\<bar>"
proof -
  have h: "2 * \<bar>sin (u / 2)\<bar> \<le> \<bar>u\<bar>" for u :: real
    using abs_sin_x_le_abs_x [of "u / 2"] by simp
  have "\<bar>sin x - sin y\<bar> = 2 * \<bar>sin ((x - y) / 2)\<bar> * \<bar>cos ((x + y) / 2)\<bar>"
    by (simp add: sin_diff_sin abs_mult)
  also have "\<dots> \<le> 2 * \<bar>sin ((x - y) / 2)\<bar> * 1"
    by (intro mult_left_mono) simp_all
  also have "\<dots> \<le> \<bar>x - y\<bar>"
    using h [of "x - y"] by simp
  finally show "\<bar>sin x - sin y\<bar> \<le> \<bar>x - y\<bar>" .
  have "\<bar>cos x - cos y\<bar> = 2 * \<bar>sin ((y - x) / 2)\<bar> * \<bar>sin ((x + y) / 2)\<bar>"
    by (simp add: cos_diff_cos abs_mult)
  also have "\<dots> \<le> 2 * \<bar>sin ((y - x) / 2)\<bar> * 1"
    by (intro mult_left_mono) simp_all
  also have "\<dots> \<le> \<bar>x - y\<bar>"
    using h [of "y - x"] by simp
  finally show "\<bar>cos x - cos y\<bar> \<le> \<bar>x - y\<bar>" .
qed

text \<open>
  The angle in radians that the code computes and the one with \<open>\<pi>\<close>, and the drag and the
  lift at the two angles.
\<close>

lemma a_rad_near:
  "\<bar>aoa * PI / 180 - aoa * pi / 180\<bar> \<le> \<bar>aoa\<bar> / (180 * 10 ^ 20)"
proof -
  have "\<bar>aoa * PI / 180 - aoa * pi / 180\<bar> = \<bar>aoa\<bar> * \<bar>PI - pi\<bar> / 180"
    by (simp add: abs_mult flip: diff_divide_distrib right_diff_distrib)
  also have "\<dots> \<le> \<bar>aoa\<bar> * (1 / 10 ^ 20) / 180"
    using PI_approximates_pi
    by (intro divide_right_mono mult_left_mono) simp_all
  finally show ?thesis
    by simp
qed

lemma drag_lift_near:
  fixes Fx Fy a b :: real
  shows "\<bar>(Fx * cos a + Fy * sin a) - (Fx * cos b + Fy * sin b)\<bar> \<le> (\<bar>Fx\<bar> + \<bar>Fy\<bar>) * \<bar>a - b\<bar>"
    and "\<bar>(- Fx * sin a + Fy * cos a) - (- Fx * sin b + Fy * cos b)\<bar>
           \<le> (\<bar>Fx\<bar> + \<bar>Fy\<bar>) * \<bar>a - b\<bar>"
proof -
  have c: "\<bar>Fx * (cos a - cos b)\<bar> \<le> \<bar>Fx\<bar> * \<bar>a - b\<bar>" "\<bar>Fy * (cos a - cos b)\<bar> \<le> \<bar>Fy\<bar> * \<bar>a - b\<bar>"
    and s: "\<bar>Fx * (sin a - sin b)\<bar> \<le> \<bar>Fx\<bar> * \<bar>a - b\<bar>" "\<bar>Fy * (sin a - sin b)\<bar> \<le> \<bar>Fy\<bar> * \<bar>a - b\<bar>"
    unfolding abs_mult
    by (intro mult_left_mono sin_cos_lipschitz abs_ge_zero)+
  have r: "(\<bar>Fx\<bar> + \<bar>Fy\<bar>) * \<bar>a - b\<bar> = \<bar>Fx\<bar> * \<bar>a - b\<bar> + \<bar>Fy\<bar> * \<bar>a - b\<bar>"
    by (rule distrib_right)
  have "(Fx * cos a + Fy * sin a) - (Fx * cos b + Fy * sin b)
      = Fx * (cos a - cos b) + Fy * (sin a - sin b)"
    by (simp add: algebra_simps)
  then have "\<bar>(Fx * cos a + Fy * sin a) - (Fx * cos b + Fy * sin b)\<bar>
      \<le> \<bar>Fx * (cos a - cos b)\<bar> + \<bar>Fy * (sin a - sin b)\<bar>"
    by (simp only: abs_triangle_ineq)
  with c(1) s(2) show "\<bar>(Fx * cos a + Fy * sin a) - (Fx * cos b + Fy * sin b)\<bar>
      \<le> (\<bar>Fx\<bar> + \<bar>Fy\<bar>) * \<bar>a - b\<bar>"
    unfolding r by linarith
  have "(- Fx * sin a + Fy * cos a) - (- Fx * sin b + Fy * cos b)
      = Fy * (cos a - cos b) + - (Fx * (sin a - sin b))"
    by (simp add: algebra_simps)
  then have "\<bar>(- Fx * sin a + Fy * cos a) - (- Fx * sin b + Fy * cos b)\<bar>
      \<le> \<bar>Fy * (cos a - cos b)\<bar> + \<bar>- (Fx * (sin a - sin b))\<bar>"
    by (simp only: abs_triangle_ineq)
  with c(2) s(1) show "\<bar>(- Fx * sin a + Fy * cos a) - (- Fx * sin b + Fy * cos b)\<bar>
      \<le> (\<bar>Fx\<bar> + \<bar>Fy\<bar>) * \<bar>a - b\<bar>"
    unfolding r abs_minus by linarith
qed

text \<open>The sample environments.\<close>

lemma sample_host_answers:
  "Lookup_Thread (sample_host file opens) (SURFACE_ZONE_ID user_edits) = Some 1"
  "Compute_Force_And_Moment (sample_host file opens) t cg = ((3, 4, 0), (0, 2, 0))"
  "results_txt_opens (sample_host file opens) = opens"
  "snd (read_aoa_from_file (sample_host (aoa_file v) opens) s) = s\<lparr>aoa_deg := v\<rparr>"
  "Lookup_Thread (sample_host file opens) (SURFACE_ZONE_ID zero_area) = Some 1"
  by (simp_all add: sample_host_def user_edits_def zero_area_def read_aoa_from_file_def
      aoa_file_def)

lemma no_zone_host_answers:
  "Lookup_Thread (no_zone_host file opens) z = None"
  "aoa_txt (no_zone_host file opens) = file"
  by (simp_all add: no_zone_host_def sample_host_def)

lemma sample_host_step:
  "snd (compute_forces_and_write user_edits (sample_host (aoa_file v) opens) s) =
     Message (Summary (reduce user_edits v (v * PI / 180) (3, 4, 0) (0, 2, 0)))
       (write_row (sample_host (aoa_file v) opens)
          (reduce user_edits v (v * PI / 180) (3, 4, 0) (0, 2, 0)) (s\<lparr>aoa_deg := v\<rparr>))"
  "snd (compute_forces_and_write zero_area (sample_host (aoa_file v) opens) s) =
     Message (Summary (reduce zero_area v (v * PI / 180) (3, 4, 0) (0, 2, 0)))
       (write_row (sample_host (aoa_file v) opens)
          (reduce zero_area v (v * PI / 180) (3, 4, 0) (0, 2, 0)) (s\<lparr>aoa_deg := v\<rparr>))"
  by (simp_all add: cfw_found [OF sample_host_answers(1) sample_host_answers(2) refl]
      cfw_found [OF sample_host_answers(5) sample_host_answers(2) refl] sample_host_answers(4))

lemma sample_host_aoa:
  "aoa_deg (snd (compute_forces_and_write user_edits (sample_host (aoa_file v) opens) s)) = v"
  "aoa_deg (snd (compute_forces_and_write zero_area (sample_host (aoa_file v) opens) s)) = v"
  by (simp_all add: sample_host_step Message_fields write_row_aoa)

lemma sample_host_ledger:
  "aoa_results_txt (snd (compute_forces_and_write user_edits (sample_host (aoa_file v) True) s)) =
     aoa_results_txt s @ (if header_written s = 0 then [header] else [])
       @ [Data_line (reduce user_edits v (v * PI / 180) (3, 4, 0) (0, 2, 0))]"
  "aoa_results_txt (snd (compute_forces_and_write user_edits (sample_host (aoa_file v) False) s)) =
     aoa_results_txt s"
  "header_written (snd (compute_forces_and_write user_edits (sample_host (aoa_file v) True) s)) =
     (if header_written s = 0 then 1 else header_written s)"
  "header_written (snd (compute_forces_and_write user_edits (sample_host (aoa_file v) False) s)) =
     header_written s"
  by (simp_all add: sample_host_step Message_fields write_row_def sample_host_answers(3))

text \<open>The results file and the flag along a process.\<close>

lemma cfw_skips:
  assumes "\<not> reaches_append c h"
  shows "aoa_results_txt (snd (compute_forces_and_write c h s)) = aoa_results_txt s"
    and "header_written (snd (compute_forces_and_write c h s)) = header_written s"
  using assms
  by (auto simp add: reaches_append_def compute_forces_and_write_def Let_def Message_fields
      write_row_def read_aoa_other_fields split: option.splits prod.splits)

lemma cfw_appends:
  assumes "reaches_append c h"
  shows "\<exists>row. aoa_results_txt (snd (compute_forces_and_write c h s)) =
            aoa_results_txt s @ (if header_written s = 0 then [header] else []) @ [Data_line row]"
    and "header_written (snd (compute_forces_and_write c h s)) =
            (if header_written s = 0 then 1 else header_written s)"
  using assms
  by (auto simp add: reaches_append_def compute_forces_and_write_def Let_def Message_fields
      write_row_def read_aoa_other_fields split: option.splits prod.splits)

lemma run_append: "run c (xs @ ys) s = run c ys (run c xs s)"
  by (induction xs arbitrary: s) simp_all

lemma run_skips:
  "\<forall>h \<in> set hs. \<not> reaches_append c h \<Longrightarrow>
   header_written (run c hs s) = header_written s \<and>
   aoa_results_txt (run c hs s) = aoa_results_txt s"
proof (induction hs arbitrary: s)
  case Nil
  then show ?case by simp
next
  case (Cons h hs)
  then have "\<not> reaches_append c h"
    by simp
  from cfw_skips [OF this, of s] Cons show ?case
    by simp
qed

lemma run_after_header:
  "header_written s \<noteq> 0 \<Longrightarrow>
   \<exists>rows. aoa_results_txt (run c hs s) = aoa_results_txt s @ map Data_line rows \<and>
          length rows = length (filter (reaches_append c) hs) \<and>
          header_written (run c hs s) = header_written s"
proof (induction hs arbitrary: s)
  case Nil
  then show ?case by simp
next
  case (Cons h hs)
  let ?s = "snd (compute_forces_and_write c h s)"
  show ?case
  proof (cases "reaches_append c h")
    case True
    from cfw_appends [OF True, of s] Cons.prems
    obtain row where s1: "aoa_results_txt ?s = aoa_results_txt s @ [Data_line row]"
      and f1: "header_written ?s = header_written s"
      by auto
    from Cons.IH [of ?s] f1 Cons.prems
    obtain rows where "aoa_results_txt (run c hs ?s) = aoa_results_txt ?s @ map Data_line rows"
      and "length rows = length (filter (reaches_append c) hs)"
      and "header_written (run c hs ?s) = header_written ?s"
      by auto
    with s1 f1 True have
      "aoa_results_txt (run c (h # hs) s) = aoa_results_txt s @ map Data_line (row # rows) \<and>
       length (row # rows) = length (filter (reaches_append c) (h # hs)) \<and>
       header_written (run c (h # hs) s) = header_written s"
      by simp
    then show ?thesis by blast
  next
    case False
    from cfw_skips [OF False, of s] Cons.IH [of ?s] Cons.prems False
    show ?thesis by simp
  qed
qed

lemma run_before_header:
  "header_written s = 0 \<Longrightarrow>
   (if filter (reaches_append c) hs = []
    then aoa_results_txt (run c hs s) = aoa_results_txt s \<and> header_written (run c hs s) = 0
    else \<exists>row rows.
          aoa_results_txt (run c hs s) =
            aoa_results_txt s @ header # Data_line row # map Data_line rows \<and>
          Suc (length rows) = length (filter (reaches_append c) hs) \<and>
          header_written (run c hs s) = 1)"
proof (induction hs arbitrary: s)
  case Nil
  then show ?case by simp
next
  case (Cons h hs)
  let ?s = "snd (compute_forces_and_write c h s)"
  show ?case
  proof (cases "reaches_append c h")
    case True
    from cfw_appends [OF True, of s] Cons.prems
    obtain row where s1: "aoa_results_txt ?s = aoa_results_txt s @ [header, Data_line row]"
      and f1: "header_written ?s = 1"
      by auto
    from run_after_header [of ?s c hs] f1
    obtain rows where "aoa_results_txt (run c hs ?s) = aoa_results_txt ?s @ map Data_line rows"
      and "length rows = length (filter (reaches_append c) hs)"
      and "header_written (run c hs ?s) = header_written ?s"
      by auto
    with s1 f1 True have
      "aoa_results_txt (run c (h # hs) s) =
         aoa_results_txt s @ header # Data_line row # map Data_line rows \<and>
       Suc (length rows) = length (filter (reaches_append c) (h # hs)) \<and>
       header_written (run c (h # hs) s) = 1"
      by simp
    with True show ?thesis by auto
  next
    case False
    from cfw_skips [OF False, of s] Cons.prems
    have k: "aoa_results_txt ?s = aoa_results_txt s" "header_written ?s = 0"
      by simp_all
    from Cons.IH [of ?s, OF k(2)] False
    show ?thesis unfolding k by simp
  qed
qed

lemma is_header_simps:
  "is_header header" "\<not> is_header (Data_line row)"
  by (simp_all add: is_header_def header_def)

lemma filter_is_header_rows: "filter is_header (map Data_line rows) = []"
  by (induction rows) (simp_all add: is_header_simps)

subsection \<open>Drag and lift\<close>

text \<open>
  Claim C1. For every angle of attack and every force \<open>(Fx, Fy, Fz)\<close> that the solver
  answers, an invocation that finds the zone works with \<open>a = aoa_deg * PI / 180\<close>, where
  \<open>aoa_deg\<close> is the angle it has just read, and the row that it prints on the console, and
  appends to the results file when the file opens, has the drag
  \<open>Fd = Fx * cos a + Fy * sin a\<close> and the lift \<open>Fl = - Fx * sin a + Fy * cos a\<close>. The
  constant \<open>PI\<close> of the code is \<open>\<pi>\<close> cut after twenty decimals, \<open>PI < \<pi> < PI + 1 / 10 ^ 20\<close>, so
  that \<open>a\<close> is \<open>aoa_deg * \<pi> / 180\<close> up to \<open>\<bar>aoa_deg\<bar> / (180 * 10 ^ 20)\<close>, and the drag and the lift
  are those of the angle \<open>aoa_deg * \<pi> / 180\<close> up to \<open>(\<bar>Fx\<bar> + \<bar>Fy\<bar>)\<close> times that bound.
\<close>

theorem drag_lift_of_the_row:
  assumes "Lookup_Thread h (SURFACE_ZONE_ID c) = Some t"
    and "Compute_Force_And_Moment h t (0.25 * LREF c, 0, 0) = ((Fx, Fy, Fz), M)"
  shows "let s' = snd (compute_forces_and_write c h s);
             a = aoa_deg s' * PI / 180;
             row = reduce c (aoa_deg s') a (Fx, Fy, Fz) M
         in console s' = console s @ [Summary row] \<and>
            (results_txt_opens h \<longrightarrow> last (aoa_results_txt s') = Data_line row) \<and>
            r_aoa row = aoa_deg s' \<and> r_Fx row = Fx \<and> r_Fy row = Fy \<and> r_Fz row = Fz \<and>
            r_Fd row = Fx * cos a + Fy * sin a \<and>
            r_Fl row = - Fx * sin a + Fy * cos a \<and>
            PI < pi \<and> pi < PI + 1 / 10 ^ 20 \<and>
            \<bar>a - aoa_deg s' * pi / 180\<bar> \<le> \<bar>aoa_deg s'\<bar> / (180 * 10 ^ 20) \<and>
            \<bar>r_Fd row - (Fx * cos (aoa_deg s' * pi / 180) + Fy * sin (aoa_deg s' * pi / 180))\<bar>
              \<le> (\<bar>Fx\<bar> + \<bar>Fy\<bar>) * (\<bar>aoa_deg s'\<bar> / (180 * 10 ^ 20)) \<and>
            \<bar>r_Fl row - (- Fx * sin (aoa_deg s' * pi / 180) + Fy * cos (aoa_deg s' * pi / 180))\<bar>
              \<le> (\<bar>Fx\<bar> + \<bar>Fy\<bar>) * (\<bar>aoa_deg s'\<bar> / (180 * 10 ^ 20))"
proof -
  define v where "v = aoa_deg (snd (compute_forces_and_write c h s))"
  let ?a = "v * PI / 180"
  let ?b = "v * pi / 180"
  let ?row = "reduce c v ?a (Fx, Fy, Fz) M"
  note n = a_rad_near [of v]
  have f: "0 \<le> \<bar>Fx\<bar> + \<bar>Fy\<bar>"
    by simp
  have d: "r_Fd ?row = Fx * cos ?a + Fy * sin ?a" "r_Fl ?row = - Fx * sin ?a + Fy * cos ?a"
    by (simp_all add: reduce_drag_lift)
  have "\<bar>r_Fd ?row - (Fx * cos ?b + Fy * sin ?b)\<bar> \<le> (\<bar>Fx\<bar> + \<bar>Fy\<bar>) * \<bar>?a - ?b\<bar>"
    unfolding d by (rule drag_lift_near(1))
  also have "\<dots> \<le> (\<bar>Fx\<bar> + \<bar>Fy\<bar>) * (\<bar>v\<bar> / (180 * 10 ^ 20))"
    by (rule mult_left_mono [OF n f])
  finally have nd: "\<bar>r_Fd ?row - (Fx * cos ?b + Fy * sin ?b)\<bar>
      \<le> (\<bar>Fx\<bar> + \<bar>Fy\<bar>) * (\<bar>v\<bar> / (180 * 10 ^ 20))" .
  have "\<bar>r_Fl ?row - (- Fx * sin ?b + Fy * cos ?b)\<bar> \<le> (\<bar>Fx\<bar> + \<bar>Fy\<bar>) * \<bar>?a - ?b\<bar>"
    unfolding d by (rule drag_lift_near(2))
  also have "\<dots> \<le> (\<bar>Fx\<bar> + \<bar>Fy\<bar>) * (\<bar>v\<bar> / (180 * 10 ^ 20))"
    by (rule mult_left_mono [OF n f])
  finally have nl: "\<bar>r_Fl ?row - (- Fx * sin ?b + Fy * cos ?b)\<bar>
      \<le> (\<bar>Fx\<bar> + \<bar>Fy\<bar>) * (\<bar>v\<bar> / (180 * 10 ^ 20))" .
  have r: "console (snd (compute_forces_and_write c h s)) = console s @ [Summary ?row]"
    "results_txt_opens h \<longrightarrow>
       last (aoa_results_txt (snd (compute_forces_and_write c h s))) = Data_line ?row"
    using cfw_reports(2,3) [OF assms v_def] by simp_all
  have e: "r_aoa ?row = v" "r_Fx ?row = Fx" "r_Fy ?row = Fy" "r_Fz ?row = Fz"
    by (cases M; simp add: reduce_fields)+
  from r e d n nd nl PI_approximates_pi show ?thesis
    unfolding Let_def v_def [symmetric] by blast
qed

text \<open>
  At 90 degrees and the force \<open>(3, 4, 0)\<close> the drag is 4 and the lift is \<open>- 3\<close>, up to
  \<open>35 / 10 ^ 21\<close>; the cached angle was 5 degrees before the invocation.
\<close>

theorem drag_lift_of_the_row_witness:
  "Lookup_Thread (sample_host (aoa_file 90) True) (SURFACE_ZONE_ID user_edits) = Some 1 \<and>
   Compute_Force_And_Moment (sample_host (aoa_file 90) True) 1 (0.25 * LREF user_edits, 0, 0)
     = ((3, 4, 0), (0, 2, 0)) \<and>
   results_txt_opens (sample_host (aoa_file 90) True) \<and>
   (let s' = snd (compute_forces_and_write user_edits (sample_host (aoa_file 90) True)
                    ((process_start [])\<lparr>aoa_deg := 5\<rparr>));
        row = reduce user_edits 90 (90 * PI / 180) (3, 4, 0) (0, 2, 0)
    in aoa_deg s' = 90 \<and>
       console s' = [Summary row] \<and> last (aoa_results_txt s') = Data_line row \<and>
       r_aoa row = 90 \<and> r_Fx row = 3 \<and> r_Fy row = 4 \<and>
       r_Fd row = 3 * cos (90 * PI / 180) + 4 * sin (90 * PI / 180) \<and>
       r_Fl row = - 3 * sin (90 * PI / 180) + 4 * cos (90 * PI / 180) \<and>
       \<bar>r_Fd row - 4\<bar> \<le> 35 / 10 ^ 21 \<and>
       \<bar>r_Fl row - (- 3)\<bar> \<le> 35 / 10 ^ 21)"
proof -
  let ?h = "sample_host (aoa_file 90) True"
  let ?s = "(process_start [])\<lparr>aoa_deg := 5\<rparr>"
  let ?s' = "snd (compute_forces_and_write user_edits ?h ?s)"
  let ?row = "reduce user_edits 90 (90 * PI / 180) (3, 4, 0) (0, 2, 0)"
  note h = sample_host_answers(1,2) [of "aoa_file 90" True]
  have o: "results_txt_opens ?h"
    by (simp add: sample_host_answers(3))
  have v: "aoa_deg ?s' = 90"
    by (rule sample_host_aoa)
  note t = drag_lift_of_the_row [OF h, of ?s, unfolded Let_def v]
  from t o have k: "console ?s' = console ?s @ [Summary ?row]"
    "last (aoa_results_txt ?s') = Data_line ?row"
    "r_aoa ?row = 90" "r_Fx ?row = 3" "r_Fy ?row = 4"
    "r_Fd ?row = 3 * cos (90 * PI / 180) + 4 * sin (90 * PI / 180)"
    "r_Fl ?row = - 3 * sin (90 * PI / 180) + 4 * cos (90 * PI / 180)"
    by blast+
  from t have b:
    "\<bar>r_Fd ?row - (3 * cos (90 * pi / 180) + 4 * sin (90 * pi / 180))\<bar>
       \<le> (\<bar>3\<bar> + \<bar>4\<bar>) * (\<bar>90\<bar> / (180 * 10 ^ 20))"
    "\<bar>r_Fl ?row - (- 3 * sin (90 * pi / 180) + 4 * cos (90 * pi / 180))\<bar>
       \<le> (\<bar>3\<bar> + \<bar>4\<bar>) * (\<bar>90\<bar> / (180 * 10 ^ 20))"
    by blast+
  have p: "cos (90 * pi / 180) = 0" "sin (90 * pi / 180) = 1"
    by simp_all
  have e: "(\<bar>3\<bar> + \<bar>4\<bar>) * (\<bar>90\<bar> / (180 * 10 ^ 20)) = (35 / 10 ^ 21 :: real)"
    by simp
  from b have n: "\<bar>r_Fd ?row - 4\<bar> \<le> 35 / 10 ^ 21" "\<bar>r_Fl ?row - (- 3)\<bar> \<le> 35 / 10 ^ 21"
    unfolding p e by simp_all
  have c: "console ?s = []"
    by (simp add: process_start_def)
  from h o v k n show ?thesis
    unfolding Let_def c by simp
qed

text \<open>
  Claim C9. For every angle and every force, the drag and the lift of the row satisfy
  \<open>Fd\<^sup>2 + Fl\<^sup>2 = Fx\<^sup>2 + Fy\<^sup>2\<close>, exactly over the real numbers: the decomposition of step 5
  is a rotation, which keeps the magnitude.
\<close>

theorem drag_lift_keeps_magnitude:
  "(r_Fd (reduce c aoa a_rad (Fx, Fy, Fz) M))\<^sup>2 + (r_Fl (reduce c aoa a_rad (Fx, Fy, Fz) M))\<^sup>2
     = Fx\<^sup>2 + Fy\<^sup>2"
proof -
  have "(Fx * cos a_rad + Fy * sin a_rad)\<^sup>2 + (- Fx * sin a_rad + Fy * cos a_rad)\<^sup>2
      = (Fx\<^sup>2 + Fy\<^sup>2) * ((sin a_rad)\<^sup>2 + (cos a_rad)\<^sup>2)"
    by (rule rotation_square)
  then show ?thesis
    by (simp add: reduce_drag_lift)
qed

subsection \<open>Coefficients\<close>

text \<open>
  Claim C2. When the denominator \<open>qinf * AREF\<close> is not zero, an invocation that finds the
  zone works with the dynamic pressure \<open>q = 0.5 * RHO * UINF\<^sup>2\<close> of the configured density
  and speed, and its row has \<open>Cd = Fd / (q * AREF)\<close> and \<open>Cl = Fl / (q * AREF)\<close>, and, for the
  moment \<open>(Mx, My, Mz)\<close> that the solver answers, \<open>Cmx = Mx / (q * AREF * LREF)\<close> and
  likewise \<open>Cmy\<close> and \<open>Cmz\<close> when their denominator \<open>q * AREF * LREF\<close> is not zero either.
\<close>

theorem coefficients_of_the_row:
  assumes "Lookup_Thread h (SURFACE_ZONE_ID c) = Some t"
    and "Compute_Force_And_Moment h t (0.25 * LREF c, 0, 0) = ((Fx, Fy, Fz), (Mx, My, Mz))"
    and "qinf c * AREF c \<noteq> 0"
  shows "let s' = snd (compute_forces_and_write c h s);
             q = 0.5 * RHO c * (UINF c)\<^sup>2;
             row = reduce c (aoa_deg s') (aoa_deg s' * PI / 180) (Fx, Fy, Fz) (Mx, My, Mz)
         in qinf c = q \<and>
            console s' = console s @ [Summary row] \<and>
            (results_txt_opens h \<longrightarrow> last (aoa_results_txt s') = Data_line row) \<and>
            r_Cd row = Some (r_Fd row / (q * AREF c)) \<and>
            r_Cl row = Some (r_Fl row / (q * AREF c)) \<and>
            r_Mx row = Mx \<and> r_My row = My \<and> r_Mz row = Mz \<and>
            (q * AREF c * LREF c \<noteq> 0 \<longrightarrow>
               r_Cmx row = Some (Mx / (q * AREF c * LREF c)) \<and>
               r_Cmy row = Some (My / (q * AREF c * LREF c)) \<and>
               r_Cmz row = Some (Mz / (q * AREF c * LREF c)))"
proof -
  have q: "qinf c = 0.5 * RHO c * (UINF c)\<^sup>2"
    by (simp add: qinf_def power2_eq_square)
  show ?thesis
    unfolding Let_def q [symmetric]
    using cfw_reports(2,3) [OF assms(1,2) refl, of s] reduce_coefficients [OF assms(3)]
    by (simp add: reduce_fields c_quotient_def)
qed

theorem coefficients_of_the_row_witness:
  "Lookup_Thread (sample_host (aoa_file 0) True) (SURFACE_ZONE_ID user_edits) = Some 1 \<and>
   Compute_Force_And_Moment (sample_host (aoa_file 0) True) 1 (0.25 * LREF user_edits, 0, 0)
     = ((3, 4, 0), (0, 2, 0)) \<and>
   qinf user_edits * AREF user_edits \<noteq> 0 \<and>
   results_txt_opens (sample_host (aoa_file 0) True) \<and>
   0.5 * RHO user_edits * (UINF user_edits)\<^sup>2 * AREF user_edits * LREF user_edits \<noteq> 0 \<and>
   (let s' = snd (compute_forces_and_write user_edits (sample_host (aoa_file 0) True)
                    (process_start []));
        row = reduce user_edits 0 0 (3, 4, 0) (0, 2, 0)
    in qinf user_edits = 156.8 \<and>
       console s' = [Summary row] \<and> last (aoa_results_txt s') = Data_line row \<and>
       r_Cd row = Some (3 / 62.72) \<and> r_Cl row = Some (4 / 62.72) \<and>
       r_Cmx row = Some 0 \<and> r_Cmy row = Some (2 / (62.72 * 0.435)) \<and> r_Cmz row = Some 0)"
proof -
  note h = sample_host_answers(1,2) [of "aoa_file 0" True]
  have o: "results_txt_opens (sample_host (aoa_file 0) True)"
    by (simp add: sample_host_answers(3))
  have q: "qinf user_edits * AREF user_edits \<noteq> 0"
    by (simp add: qinf_def user_edits_def)
  have q2: "0.5 * RHO user_edits * (UINF user_edits)\<^sup>2 = 156.8"
    "AREF user_edits = 0.4" "LREF user_edits = 0.435"
    by (simp_all add: user_edits_def)
  have l: "0.5 * RHO user_edits * (UINF user_edits)\<^sup>2 * AREF user_edits * LREF user_edits \<noteq> 0"
    unfolding q2 by simp
  have d: "r_Fd (reduce user_edits 0 0 (3, 4, 0) (0, 2, 0)) = 3"
          "r_Fl (reduce user_edits 0 0 (3, 4, 0) (0, 2, 0)) = 4"
    by (simp_all add: reduce_drag_lift)
  have "let s' = snd (compute_forces_and_write user_edits (sample_host (aoa_file 0) True)
                    (process_start []));
        row = reduce user_edits 0 0 (3, 4, 0) (0, 2, 0)
    in qinf user_edits = 156.8 \<and>
       console s' = [Summary row] \<and> last (aoa_results_txt s') = Data_line row \<and>
       r_Cd row = Some (3 / 62.72) \<and> r_Cl row = Some (4 / 62.72) \<and>
       r_Cmx row = Some 0 \<and> r_Cmy row = Some (2 / (62.72 * 0.435)) \<and> r_Cmz row = Some 0"
    using coefficients_of_the_row [OF h q, of "process_start []"] o
    unfolding Let_def sample_host_aoa q2
    by (simp add: process_start_fields d)
  with h q o l show ?thesis by blast
qed

text \<open>
  Claim C3. For every force and moment, when \<open>qinf * AREF\<close> is exactly zero (as it is for a
  reference area of zero), an invocation that finds the zone sets the coefficients \<open>Cd\<close>,
  \<open>Cl\<close>, \<open>Cmx\<close>, \<open>Cmy\<close> and \<open>Cmz\<close> to 0 instead of dividing: each of them is the real number 0,
  whereas the quotients of the other branch, by \<open>qinf * AREF\<close> and by \<open>qinf * AREF * LREF\<close>,
  are no real numbers here. The row is still printed, and appended when the file opens.
\<close>

theorem zero_denominator_gives_zero_coefficients:
  assumes "Lookup_Thread h (SURFACE_ZONE_ID c) = Some t"
    and "Compute_Force_And_Moment h t (0.25 * LREF c, 0, 0) = ((Fx, Fy, Fz), (Mx, My, Mz))"
    and "qinf c * AREF c = 0"
  shows "let s' = snd (compute_forces_and_write c h s);
             row = reduce c (aoa_deg s') (aoa_deg s' * PI / 180) (Fx, Fy, Fz) (Mx, My, Mz)
         in r_Cd row = Some 0 \<and> r_Cl row = Some 0 \<and>
            r_Cmx row = Some 0 \<and> r_Cmy row = Some 0 \<and> r_Cmz row = Some 0 \<and>
            c_quotient (r_Fd row) (qinf c * AREF c) = None \<and>
            c_quotient (r_Fl row) (qinf c * AREF c) = None \<and>
            c_quotient Mx (qinf c * AREF c * LREF c) = None \<and>
            c_quotient My (qinf c * AREF c * LREF c) = None \<and>
            c_quotient Mz (qinf c * AREF c * LREF c) = None \<and>
            console s' = console s @ [Summary row] \<and>
            (results_txt_opens h \<longrightarrow> last (aoa_results_txt s') = Data_line row)"
  unfolding Let_def
  using cfw_reports(2,3) [OF assms(1,2) refl, of s] reduce_degenerate [OF assms(3)] assms(3)
  by (simp add: c_quotient_def)

theorem zero_denominator_gives_zero_coefficients_witness:
  "Lookup_Thread (sample_host (aoa_file 0) True) (SURFACE_ZONE_ID zero_area) = Some 1 \<and>
   Compute_Force_And_Moment (sample_host (aoa_file 0) True) 1 (0.25 * LREF zero_area, 0, 0)
     = ((3, 4, 0), (0, 2, 0)) \<and>
   qinf zero_area * AREF zero_area = 0 \<and>
   results_txt_opens (sample_host (aoa_file 0) True) \<and>
   (let s' = snd (compute_forces_and_write zero_area (sample_host (aoa_file 0) True)
                    (process_start []));
        row = reduce zero_area 0 0 (3, 4, 0) (0, 2, 0)
    in r_Cd row = Some 0 \<and> r_Cl row = Some 0 \<and>
       r_Cmx row = Some 0 \<and> r_Cmy row = Some 0 \<and> r_Cmz row = Some 0 \<and>
       r_Fd row = 3 \<and> r_Fl row = 4 \<and> r_My row = 2 \<and>
       c_quotient 3 (qinf zero_area * AREF zero_area) = None \<and>
       c_quotient 2 (qinf zero_area * AREF zero_area * LREF zero_area) = None \<and>
       console s' = [Summary row] \<and>
       last (aoa_results_txt s') = Data_line row)"
proof -
  note h = sample_host_answers(5,2) [of "aoa_file 0" True]
  have o: "results_txt_opens (sample_host (aoa_file 0) True)"
    by (simp add: sample_host_answers(3))
  have q: "qinf zero_area * AREF zero_area = 0"
    by (simp add: zero_area_def)
  have d: "r_Fd (reduce zero_area 0 0 (3, 4, 0) (0, 2, 0)) = 3"
          "r_Fl (reduce zero_area 0 0 (3, 4, 0) (0, 2, 0)) = 4"
          "r_My (reduce zero_area 0 0 (3, 4, 0) (0, 2, 0)) = 2"
    by (simp_all add: reduce_drag_lift reduce_fields)
  have "let s' = snd (compute_forces_and_write zero_area (sample_host (aoa_file 0) True)
                    (process_start []));
        row = reduce zero_area 0 0 (3, 4, 0) (0, 2, 0)
    in r_Cd row = Some 0 \<and> r_Cl row = Some 0 \<and>
       r_Cmx row = Some 0 \<and> r_Cmy row = Some 0 \<and> r_Cmz row = Some 0 \<and>
       r_Fd row = 3 \<and> r_Fl row = 4 \<and> r_My row = 2 \<and>
       c_quotient 3 (qinf zero_area * AREF zero_area) = None \<and>
       c_quotient 2 (qinf zero_area * AREF zero_area * LREF zero_area) = None \<and>
       console s' = [Summary row] \<and>
       last (aoa_results_txt s') = Data_line row"
    using zero_denominator_gives_zero_coefficients [OF h q, of "process_start []"] o
    unfolding Let_def sample_host_aoa d
    by (simp add: process_start_fields d)
  with h q o show ?thesis by blast
qed

subsection \<open>Reading the angle of attack\<close>

text \<open>
  Claim C6. A call of \<open>read_aoa_from_file\<close> keeps the cached angle unchanged when
  \<^verbatim>\<open>aoa.txt\<close> cannot be opened or \<^verbatim>\<open>fscanf\<close> converts no number from it, the cached angle
  being 0 at the start of a process; it reports nothing in either case (it returns no value
  and prints no message); and when \<^verbatim>\<open>fscanf\<close> converts a number, the cached angle becomes
  that number.
\<close>

theorem read_aoa_keeps_or_updates:
  "(aoa_txt h = None \<longrightarrow> read_aoa_from_file h s = ((), s)) \<and>
   (\<forall>fp. aoa_txt h = Some fp \<and> converted fp \<noteq> 1 \<longrightarrow> read_aoa_from_file h s = ((), s)) \<and>
   (\<forall>fp. aoa_txt h = Some fp \<and> converted fp = 1 \<longrightarrow>
      read_aoa_from_file h s = ((), s\<lparr>aoa_deg := tmp fp\<rparr>)) \<and>
   console (snd (read_aoa_from_file h s)) = console s \<and>
   aoa_deg (process_start ledger) = 0"
  by (simp add: read_aoa_from_file_def process_start_def split: option.splits)

theorem read_aoa_keeps_or_updates_witness:
  "aoa_txt (sample_host None True) = None \<and>
   read_aoa_from_file (sample_host None True) (process_start []) = ((), process_start []) \<and>
   aoa_deg (process_start []) = 0 \<and>
   aoa_txt (sample_host (Some \<lparr>converted = 0, tmp = 7\<rparr>) True)
     = Some \<lparr>converted = 0, tmp = 7\<rparr> \<and>
   converted \<lparr>converted = 0, tmp = 7\<rparr> \<noteq> 1 \<and>
   read_aoa_from_file (sample_host (Some \<lparr>converted = 0, tmp = 7\<rparr>) True)
     ((process_start [])\<lparr>aoa_deg := 2.5\<rparr>) = ((), (process_start [])\<lparr>aoa_deg := 2.5\<rparr>) \<and>
   aoa_txt (sample_host (Some \<lparr>converted = 1, tmp = - 5\<rparr>) True)
     = Some \<lparr>converted = 1, tmp = - 5\<rparr> \<and>
   converted \<lparr>converted = 1, tmp = - 5\<rparr> = 1 \<and>
   read_aoa_from_file (sample_host (Some \<lparr>converted = 1, tmp = - 5\<rparr>) True)
     ((process_start [])\<lparr>aoa_deg := 2.5\<rparr>) = ((), (process_start [])\<lparr>aoa_deg := - 5\<rparr>)"
proof -
  have 1: "aoa_txt (sample_host None True) = None"
    by (simp add: sample_host_def)
  have 2: "aoa_txt (sample_host (Some \<lparr>converted = 0, tmp = 7\<rparr>) True)
     = Some \<lparr>converted = 0, tmp = 7\<rparr> \<and> converted \<lparr>converted = 0, tmp = 7\<rparr> \<noteq> 1"
    by (simp add: sample_host_def)
  have 3: "aoa_txt (sample_host (Some \<lparr>converted = 1, tmp = - 5\<rparr>) True)
     = Some \<lparr>converted = 1, tmp = - 5\<rparr> \<and> converted \<lparr>converted = 1, tmp = - 5\<rparr> = 1"
    by (simp add: sample_host_def)
  from 1 read_aoa_keeps_or_updates [of "sample_host None True" "process_start []" "[]"]
  have a: "read_aoa_from_file (sample_host None True) (process_start []) = ((), process_start [])"
    "aoa_deg (process_start []) = 0"
    by blast+
  from 2 read_aoa_keeps_or_updates [of "sample_host (Some \<lparr>converted = 0, tmp = 7\<rparr>) True"
      "(process_start [])\<lparr>aoa_deg := 2.5\<rparr>" "[]"]
  have b: "read_aoa_from_file (sample_host (Some \<lparr>converted = 0, tmp = 7\<rparr>) True)
     ((process_start [])\<lparr>aoa_deg := 2.5\<rparr>) = ((), (process_start [])\<lparr>aoa_deg := 2.5\<rparr>)"
    by blast
  from 3 read_aoa_keeps_or_updates [of "sample_host (Some \<lparr>converted = 1, tmp = - 5\<rparr>) True"
      "(process_start [])\<lparr>aoa_deg := 2.5\<rparr>" "[]"]
  have "read_aoa_from_file (sample_host (Some \<lparr>converted = 1, tmp = - 5\<rparr>) True)
     ((process_start [])\<lparr>aoa_deg := 2.5\<rparr>) =
       ((), (process_start [])\<lparr>aoa_deg := 2.5, aoa_deg := tmp \<lparr>converted = 1, tmp = - 5\<rparr>\<rparr>)"
    by blast
  then have c: "read_aoa_from_file (sample_host (Some \<lparr>converted = 1, tmp = - 5\<rparr>) True)
     ((process_start [])\<lparr>aoa_deg := 2.5\<rparr>) = ((), (process_start [])\<lparr>aoa_deg := - 5\<rparr>)"
    by simp
  from 1 2 3 a b c show ?thesis by blast
qed

subsection \<open>A zone that is not found\<close>

text \<open>
  Claim C7, as the code has it. The claim asks for a message and a non-zero signal to the
  driver. The function returns \<^verbatim>\<open>void\<close>: in an environment without the zone, the whole
  outcome of an invocation is the unit value, which a successful invocation returns too,
  and a state that differs from the initial one by the message only.
\<close>

theorem zone_not_found_returns_unit:
  "compute_forces_and_write user_edits (no_zone_host None True) (process_start [])
     = ((), (process_start [])\<lparr>console := [Zone_not_found 5]\<rparr>) \<and>
   fst (compute_forces_and_write user_edits (no_zone_host None True) (process_start []))
     = fst (compute_forces_and_write user_edits (sample_host None True) (process_start []))"
  by (simp add: cfw_not_found no_zone_host_answers read_aoa_from_file_def Message_def
      process_start_def user_edits_def)

text \<open>
  Claim C7, amended. When the zone is not found, the invocation stops before it asks the
  solver for the force: it prints the error message with the zone identifier and returns
  normally, with no status value; it writes nothing to the results file, leaves the header
  flag as it was, and its outcome does not depend on what the solver would have answered.
\<close>

theorem zone_not_found_aborts:
  assumes "Lookup_Thread h (SURFACE_ZONE_ID c) = None"
  shows "compute_forces_and_write c h s =
           ((), (snd (read_aoa_from_file h s))
                  \<lparr>console := console s @ [Zone_not_found (SURFACE_ZONE_ID c)]\<rparr>) \<and>
         aoa_results_txt (snd (compute_forces_and_write c h s)) = aoa_results_txt s \<and>
         header_written (snd (compute_forces_and_write c h s)) = header_written s \<and>
         compute_forces_and_write c (h\<lparr>Compute_Force_And_Moment := g\<rparr>) s =
           compute_forces_and_write c h s"
proof -
  have "read_aoa_from_file (h\<lparr>Compute_Force_And_Moment := g\<rparr>) s = read_aoa_from_file h s"
    by (simp add: read_aoa_from_file_def)
  with assms show ?thesis
    by (simp add: cfw_not_found Message_def read_aoa_other_fields)
qed

theorem zone_not_found_aborts_witness:
  "Lookup_Thread (no_zone_host (aoa_file 2.5) True) (SURFACE_ZONE_ID user_edits) = None \<and>
   compute_forces_and_write user_edits (no_zone_host (aoa_file 2.5) True) (process_start [header])
     = ((), \<lparr>aoa_deg = 2.5, header_written = 0, aoa_results_txt = [header],
             console = [Zone_not_found 5]\<rparr>)"
proof -
  note h = no_zone_host_answers(1) [of "aoa_file 2.5" True "SURFACE_ZONE_ID user_edits"]
  have r: "snd (read_aoa_from_file (no_zone_host (aoa_file 2.5) True) (process_start [header]))
     = \<lparr>aoa_deg = 2.5, header_written = 0, aoa_results_txt = [header], console = []\<rparr>"
    by (simp add: read_aoa_from_file_def no_zone_host_answers(2) aoa_file_def process_start_def)
  from zone_not_found_aborts [OF h, of "process_start [header]"]
  have "compute_forces_and_write user_edits (no_zone_host (aoa_file 2.5) True)
      (process_start [header])
     = ((), \<lparr>aoa_deg = 2.5, header_written = 0, aoa_results_txt = [header],
             console = [Zone_not_found 5]\<rparr>)"
    unfolding r by (simp add: user_edits_def process_start_def)
  with h show ?thesis by blast
qed

subsection \<open>A results file that does not open\<close>

text \<open>
  Claim C8, as the code has it. The claim asks that a results file that cannot be opened is
  surfaced to the driver. In the sample environment the row is not appended when the file
  does not open, while the value returned and everything printed on the console are those of
  the invocation whose file opens.
\<close>

theorem unopened_file_looks_like_success:
  "aoa_results_txt (snd (compute_forces_and_write user_edits (sample_host (aoa_file 0) False)
       (process_start []))) = [] \<and>
   aoa_results_txt (snd (compute_forces_and_write user_edits (sample_host (aoa_file 0) True)
       (process_start []))) = [header, Data_line (reduce user_edits 0 0 (3, 4, 0) (0, 2, 0))] \<and>
   console (snd (compute_forces_and_write user_edits (sample_host (aoa_file 0) False)
       (process_start []))) =
   console (snd (compute_forces_and_write user_edits (sample_host (aoa_file 0) True)
       (process_start []))) \<and>
   fst (compute_forces_and_write user_edits (sample_host (aoa_file 0) False) (process_start []))
     = fst (compute_forces_and_write user_edits (sample_host (aoa_file 0) True)
         (process_start []))"
  by (simp add: sample_host_step Message_fields write_row_def sample_host_answers(3)
      process_start_def)

text \<open>
  Claim C8, amended. When the results file cannot be opened, the invocation reports no
  failure: it skips the append, so that the file and the header flag stay as they were,
  returns as usual, and prints the summary with the computed numbers, which is exactly what
  it prints when the file opens. The numbers reach the console but not the file.
\<close>

theorem unopened_file_is_skipped:
  assumes "Lookup_Thread h (SURFACE_ZONE_ID c) = Some t"
    and "Compute_Force_And_Moment h t (0.25 * LREF c, 0, 0) = (F, M)"
    and "\<not> results_txt_opens h"
  shows "let s' = snd (compute_forces_and_write c h s);
             opened = compute_forces_and_write c (h\<lparr>results_txt_opens := True\<rparr>) s
         in aoa_results_txt s' = aoa_results_txt s \<and>
            header_written s' = header_written s \<and>
            console s' = console s @ [Summary (reduce c (aoa_deg s') (aoa_deg s' * PI / 180) F M)] \<and>
            console s' = console (snd opened) \<and>
            fst (compute_forces_and_write c h s) = fst opened"
proof -
  have r: "read_aoa_from_file (h\<lparr>results_txt_opens := True\<rparr>) s = read_aoa_from_file h s"
    by (simp add: read_aoa_from_file_def)
  have o: "Lookup_Thread (h\<lparr>results_txt_opens := True\<rparr>) (SURFACE_ZONE_ID c) = Some t"
    "Compute_Force_And_Moment (h\<lparr>results_txt_opens := True\<rparr>) t (0.25 * LREF c, 0, 0) = (F, M)"
    using assms(1,2) by simp_all
  show ?thesis
    unfolding Let_def cfw_found [OF assms(1,2) refl] cfw_found [OF o refl] r
    using assms(3)
    by (simp add: Message_fields write_row_def read_aoa_other_fields)
qed

theorem unopened_file_is_skipped_witness:
  "Lookup_Thread (sample_host (aoa_file 0) False) (SURFACE_ZONE_ID user_edits) = Some 1 \<and>
   Compute_Force_And_Moment (sample_host (aoa_file 0) False) 1 (0.25 * LREF user_edits, 0, 0)
     = ((3, 4, 0), (0, 2, 0)) \<and>
   \<not> results_txt_opens (sample_host (aoa_file 0) False) \<and>
   (let s' = snd (compute_forces_and_write user_edits (sample_host (aoa_file 0) False)
                    (process_start []))
    in aoa_results_txt s' = [] \<and> header_written s' = 0 \<and>
       console s' = [Summary (reduce user_edits 0 0 (3, 4, 0) (0, 2, 0))])"
proof -
  note h = sample_host_answers(1,2) [of "aoa_file 0" False]
  have n: "\<not> results_txt_opens (sample_host (aoa_file 0) False)"
    by (simp add: sample_host_answers(3))
  have "let s' = snd (compute_forces_and_write user_edits (sample_host (aoa_file 0) False)
                    (process_start []))
    in aoa_results_txt s' = [] \<and> header_written s' = 0 \<and>
       console s' = [Summary (reduce user_edits 0 0 (3, 4, 0) (0, 2, 0))]"
    using unopened_file_is_skipped [OF h n, of "process_start []"]
    unfolding Let_def sample_host_aoa
    by (simp add: process_start_fields)
  with h n show ?thesis by blast
qed

subsection \<open>The header of the results file\<close>

text \<open>
  Claim C4. In a process, the first invocation that gets to append its row writes the header
  immediately before that row, and no later invocation of the process writes the header
  again: whatever the results file contained when the process started, what the process
  appends to it is one header line followed by data rows only, one for each invocation that
  gets to append. The guard is the flag \<open>header_written\<close>, which is then 1; the content of
  the file is never inspected.
\<close>

theorem one_header_per_process:
  assumes "\<forall>h' \<in> set before. \<not> reaches_append c h'"
    and "Lookup_Thread h (SURFACE_ZONE_ID c) = Some t"
    and "Compute_Force_And_Moment h t (0.25 * LREF c, 0, 0) = (F, M)"
    and "results_txt_opens h"
    and "a = aoa_deg (snd (read_aoa_from_file h (run c before (process_start ledger))))"
  shows "\<exists>rows.
           aoa_results_txt (run c (before @ h # later) (process_start ledger)) =
             ledger @ header # Data_line (reduce c a (a * PI / 180) F M) # map Data_line rows \<and>
           length rows = length (filter (reaches_append c) later) \<and>
           header_written (run c (before @ h # later) (process_start ledger)) = 1"
proof -
  let ?start = "run c before (process_start ledger)"
  let ?s = "snd (compute_forces_and_write c h ?start)"
  let ?row = "reduce c a (a * PI / 180) F M"
  from run_skips [OF assms(1), of "process_start ledger"]
  have st: "header_written ?start = 0" "aoa_results_txt ?start = ledger"
    by (simp_all add: process_start_fields)
  have l: "aoa_results_txt ?s = ledger @ [header, Data_line ?row]"
    and f: "header_written ?s = 1"
    using assms(4) st
    by (simp_all add: cfw_found [OF assms(2,3,5)] Message_fields write_row_def
        read_aoa_other_fields)
  from run_after_header [of ?s c later] f
  obtain rows where "aoa_results_txt (run c later ?s) = aoa_results_txt ?s @ map Data_line rows"
    and "length rows = length (filter (reaches_append c) later)"
    and "header_written (run c later ?s) = header_written ?s"
    by auto
  with l f have
    "aoa_results_txt (run c (before @ h # later) (process_start ledger)) =
       ledger @ header # Data_line ?row # map Data_line rows \<and>
     length rows = length (filter (reaches_append c) later) \<and>
     header_written (run c (before @ h # later) (process_start ledger)) = 1"
    by (simp add: run_append)
  then show ?thesis by blast
qed

theorem one_header_per_process_witness:
  "\<not> reaches_append user_edits (no_zone_host (aoa_file 2.5) True) \<and>
   Lookup_Thread (sample_host (aoa_file 0) True) (SURFACE_ZONE_ID user_edits) = Some 1 \<and>
   Compute_Force_And_Moment (sample_host (aoa_file 0) True) 1 (0.25 * LREF user_edits, 0, 0)
     = ((3, 4, 0), (0, 2, 0)) \<and>
   results_txt_opens (sample_host (aoa_file 0) True) \<and>
   aoa_deg (snd (read_aoa_from_file (sample_host (aoa_file 0) True)
     (run user_edits [no_zone_host (aoa_file 2.5) True]
        (process_start [header, Data_line (reduce user_edits 10 0 (1, 1, 0) (0, 0, 0))])))) = 0 \<and>
   (\<exists>rows.
      aoa_results_txt (run user_edits
         ([no_zone_host (aoa_file 2.5) True] @ sample_host (aoa_file 0) True
            # [sample_host (aoa_file 5) False, sample_host (aoa_file 7.5) True])
         (process_start [header, Data_line (reduce user_edits 10 0 (1, 1, 0) (0, 0, 0))])) =
        [header, Data_line (reduce user_edits 10 0 (1, 1, 0) (0, 0, 0)),
         header, Data_line (reduce user_edits 0 0 (3, 4, 0) (0, 2, 0))] @ map Data_line rows \<and>
      length rows = 1) \<and>
   header_written (run user_edits
         ([no_zone_host (aoa_file 2.5) True] @ sample_host (aoa_file 0) True
            # [sample_host (aoa_file 5) False, sample_host (aoa_file 7.5) True])
         (process_start [header, Data_line (reduce user_edits 10 0 (1, 1, 0) (0, 0, 0))])) = 1"
proof -
  let ?before = "[no_zone_host (aoa_file 2.5) True]"
  let ?later = "[sample_host (aoa_file 5) False, sample_host (aoa_file 7.5) True]"
  let ?ledger = "[header, Data_line (reduce user_edits 10 0 (1, 1, 0) (0, 0, 0))]"
  have b: "\<not> reaches_append user_edits (no_zone_host (aoa_file 2.5) True)"
    by (simp add: reaches_append_def no_zone_host_answers)
  then have b': "\<forall>h' \<in> set ?before. \<not> reaches_append user_edits h'"
    by simp
  note h = sample_host_answers(1,2) [of "aoa_file 0" True]
  have o: "results_txt_opens (sample_host (aoa_file 0) True)"
    by (simp add: sample_host_answers(3))
  have a: "0 = aoa_deg (snd (read_aoa_from_file (sample_host (aoa_file 0) True)
     (run user_edits ?before (process_start ?ledger))))"
    by (simp add: sample_host_answers(4))
  have n: "length (filter (reaches_append user_edits) ?later) = 1"
    by (simp add: reaches_append_def sample_host_answers)
  from one_header_per_process [OF b' h o a, of ?later]
  have "(\<exists>rows.
      aoa_results_txt (run user_edits (?before @ sample_host (aoa_file 0) True # ?later)
         (process_start ?ledger)) =
        [header, Data_line (reduce user_edits 10 0 (1, 1, 0) (0, 0, 0)),
         header, Data_line (reduce user_edits 0 0 (3, 4, 0) (0, 2, 0))] @ map Data_line rows \<and>
      length rows = 1) \<and>
   header_written (run user_edits (?before @ sample_host (aoa_file 0) True # ?later)
         (process_start ?ledger)) = 1"
    unfolding n by auto
  with b h o a [symmetric] show ?thesis by blast
qed

text \<open>
  Claim C5, as the code has it. The claim says that the file holds one header, written only
  when the file was empty at the start of the process. A first process with one invocation
  leaves a header and a row; a second process, started on that file, appends a second header
  before its row.
\<close>

theorem restart_writes_another_header:
  "aoa_results_txt (run user_edits [sample_host (aoa_file 0) True] (process_start [])) =
     [header, Data_line (reduce user_edits 0 0 (3, 4, 0) (0, 2, 0))] \<and>
   aoa_results_txt (run user_edits [sample_host (aoa_file 0) True]
     (process_start [header, Data_line (reduce user_edits 0 0 (3, 4, 0) (0, 2, 0))])) =
     [header, Data_line (reduce user_edits 0 0 (3, 4, 0) (0, 2, 0)),
      header, Data_line (reduce user_edits 0 0 (3, 4, 0) (0, 2, 0))] \<and>
   length (filter is_header
     (aoa_results_txt (run user_edits [sample_host (aoa_file 0) True]
        (process_start [header, Data_line (reduce user_edits 0 0 (3, 4, 0) (0, 2, 0))])))) = 2"
  by (simp add: sample_host_ledger process_start_fields is_header_simps)

text \<open>
  Claim C5, amended. A process in which some invocation gets to append adds exactly one
  header line to the results file, immediately before its first row and followed by data
  rows only, whatever the file contained when the process started; a process in which no
  invocation gets to append leaves the file as it was. So the header is the first line of a
  file that was empty when the process started, and every further process that appends to
  the file adds one more header.
\<close>

theorem header_per_appending_process:
  "let final = aoa_results_txt (run c hs (process_start ledger)) in
     (if filter (reaches_append c) hs = []
      then final = ledger
      else \<exists>row rows. final = ledger @ header # Data_line row # map Data_line rows) \<and>
     length (filter is_header final) =
       length (filter is_header ledger) + (if filter (reaches_append c) hs = [] then 0 else 1)"
proof -
  let ?final = "aoa_results_txt (run c hs (process_start ledger))"
  note s = process_start_fields(1,2) [of ledger]
  show ?thesis
  proof (cases "filter (reaches_append c) hs = []")
    case True
    with run_before_header [OF s(1), of c hs] s(2) show ?thesis
      by (simp add: Let_def)
  next
    case False
    with run_before_header [OF s(1), of c hs] s(2)
    obtain row rows where f: "?final = ledger @ header # Data_line row # map Data_line rows"
      by auto
    then have "length (filter is_header ?final) = length (filter is_header ledger) + 1"
      by (simp add: is_header_simps filter_is_header_rows)
    with f False show ?thesis
      unfolding Let_def by auto
  qed
qed

theorem header_per_appending_process_witness:
  "(let final = aoa_results_txt (run user_edits
        [no_zone_host (aoa_file 0) True, sample_host (aoa_file 5) True]
        (process_start [header, Data_line (reduce user_edits 0 0 (3, 4, 0) (0, 2, 0))]))
    in (\<exists>row rows. final = [header, Data_line (reduce user_edits 0 0 (3, 4, 0) (0, 2, 0))]
           @ header # Data_line row # map Data_line rows) \<and>
       length (filter is_header final) = 2)"
proof -
  have n: "filter (reaches_append user_edits)
      [no_zone_host (aoa_file 0) True, sample_host (aoa_file 5) True] \<noteq> []"
    by (simp add: reaches_append_def no_zone_host_answers sample_host_answers)
  from header_per_appending_process [of user_edits
      "[no_zone_host (aoa_file 0) True, sample_host (aoa_file 5) True]"
      "[header, Data_line (reduce user_edits 0 0 (3, 4, 0) (0, 2, 0))]"] n
  show ?thesis
    by (simp add: Let_def is_header_simps)
qed

text \<open>
  Claim C10. The flag \<open>header_written\<close> changes only in an invocation that opens the results
  file and writes the header, followed by its row; an invocation whose file does not open
  leaves the flag and the file as they were; so after any number of invocations whose file
  did not open the flag is still 0, and the first invocation that then finds the zone and
  opens the file writes the header immediately before its row.
\<close>

theorem header_flag_follows_header:
  "(header_written (snd (compute_forces_and_write c h s)) \<noteq> header_written s \<longrightarrow>
      results_txt_opens h \<and> Lookup_Thread h (SURFACE_ZONE_ID c) \<noteq> None \<and>
      header_written s = 0 \<and> header_written (snd (compute_forces_and_write c h s)) = 1 \<and>
      (\<exists>row. aoa_results_txt (snd (compute_forces_and_write c h s)) =
               aoa_results_txt s @ [header, Data_line row])) \<and>
   (\<not> results_txt_opens h \<longrightarrow>
      header_written (snd (compute_forces_and_write c h s)) = header_written s \<and>
      aoa_results_txt (snd (compute_forces_and_write c h s)) = aoa_results_txt s) \<and>
   ((\<forall>h' \<in> set hs. \<not> results_txt_opens h') \<and>
    results_txt_opens h \<and> Lookup_Thread h (SURFACE_ZONE_ID c) \<noteq> None \<longrightarrow>
      header_written (run c hs (process_start ledger)) = 0 \<and>
      (\<exists>row. aoa_results_txt (run c (hs @ [h]) (process_start ledger)) =
               ledger @ [header, Data_line row]))"
proof (intro conjI impI)
  assume d: "header_written (snd (compute_forces_and_write c h s)) \<noteq> header_written s"
  then have r: "reaches_append c h"
    using cfw_skips(2) [of c h s] by blast
  then show "results_txt_opens h" and "Lookup_Thread h (SURFACE_ZONE_ID c) \<noteq> None"
    by (simp_all add: reaches_append_def)
  from d cfw_appends(2) [OF r, of s]
  show z: "header_written s = 0"
    by (simp split: if_splits)
  with cfw_appends(2) [OF r, of s]
  show "header_written (snd (compute_forces_and_write c h s)) = 1"
    by simp
  from z cfw_appends(1) [OF r, of s]
  show "\<exists>row. aoa_results_txt (snd (compute_forces_and_write c h s)) =
               aoa_results_txt s @ [header, Data_line row]"
    by simp
next
  assume "\<not> results_txt_opens h"
  then have n: "\<not> reaches_append c h"
    by (simp add: reaches_append_def)
  from cfw_skips [OF n, of s]
  show "header_written (snd (compute_forces_and_write c h s)) = header_written s"
    and "aoa_results_txt (snd (compute_forces_and_write c h s)) = aoa_results_txt s"
    by simp_all
next
  assume a: "(\<forall>h' \<in> set hs. \<not> results_txt_opens h') \<and>
    results_txt_opens h \<and> Lookup_Thread h (SURFACE_ZONE_ID c) \<noteq> None"
  then have "\<forall>h' \<in> set hs. \<not> reaches_append c h'"
    by (simp add: reaches_append_def)
  from run_skips [OF this, of "process_start ledger"]
  have u: "header_written (run c hs (process_start ledger)) = 0"
    "aoa_results_txt (run c hs (process_start ledger)) = ledger"
    by (simp_all add: process_start_fields)
  from u show "header_written (run c hs (process_start ledger)) = 0"
    by simp
  from a have r: "reaches_append c h"
    by (simp add: reaches_append_def)
  from cfw_appends(1) [OF r, of "run c hs (process_start ledger)"] u
  show "\<exists>row. aoa_results_txt (run c (hs @ [h]) (process_start ledger)) =
               ledger @ [header, Data_line row]"
    by (simp add: run_append)
qed

theorem header_flag_follows_header_witness:
  "header_written (snd (compute_forces_and_write user_edits (sample_host (aoa_file 0) True)
      (process_start []))) \<noteq> header_written (process_start []) \<and>
   results_txt_opens (sample_host (aoa_file 0) True) \<and>
   Lookup_Thread (sample_host (aoa_file 0) True) (SURFACE_ZONE_ID user_edits) \<noteq> None \<and>
   header_written (snd (compute_forces_and_write user_edits (sample_host (aoa_file 0) True)
      (process_start []))) = 1 \<and>
   (\<exists>row. aoa_results_txt (snd (compute_forces_and_write user_edits
        (sample_host (aoa_file 0) True) (process_start []))) = [header, Data_line row]) \<and>
   \<not> results_txt_opens (sample_host (aoa_file 0) False) \<and>
   \<not> results_txt_opens (sample_host (aoa_file 5) False) \<and>
   header_written (snd (compute_forces_and_write user_edits (sample_host (aoa_file 0) False)
      (process_start []))) = 0 \<and>
   aoa_results_txt (snd (compute_forces_and_write user_edits (sample_host (aoa_file 0) False)
      (process_start []))) = [] \<and>
   header_written (run user_edits
      [sample_host (aoa_file 0) False, sample_host (aoa_file 5) False] (process_start [])) = 0 \<and>
   (\<exists>row. aoa_results_txt (run user_edits
      ([sample_host (aoa_file 0) False, sample_host (aoa_file 5) False]
          @ [sample_host (aoa_file 0) True]) (process_start [])) = [header, Data_line row])"
proof -
  let ?ok = "sample_host (aoa_file 0) True"
  let ?ro = "sample_host (aoa_file 0) False"
  let ?ro' = "sample_host (aoa_file 5) False"
  have d: "header_written (snd (compute_forces_and_write user_edits ?ok (process_start [])))
      \<noteq> header_written (process_start [])"
    by (simp add: sample_host_ledger process_start_fields)
  have o: "results_txt_opens ?ok" "\<not> results_txt_opens ?ro" "\<not> results_txt_opens ?ro'"
    by (simp_all add: sample_host_answers(3))
  have z: "Lookup_Thread ?ok (SURFACE_ZONE_ID user_edits) \<noteq> None"
    by (simp add: sample_host_answers(1))
  from o have b: "\<forall>h' \<in> set [?ro, ?ro']. \<not> results_txt_opens h'"
    by simp
  note t1 = header_flag_follows_header [of user_edits ?ok "process_start []" "[?ro, ?ro']" "[]"]
  note t2 = header_flag_follows_header [of user_edits ?ro "process_start []" "[]" "[]"]
  from t1 d have 1: "header_written (snd (compute_forces_and_write user_edits ?ok
      (process_start []))) = 1 \<and>
    (\<exists>row. aoa_results_txt (snd (compute_forces_and_write user_edits ?ok (process_start [])))
       = aoa_results_txt (process_start []) @ [header, Data_line row])"
    by blast
  from t2 o(2) have 2: "header_written (snd (compute_forces_and_write user_edits ?ro
      (process_start []))) = header_written (process_start []) \<and>
    aoa_results_txt (snd (compute_forces_and_write user_edits ?ro (process_start [])))
       = aoa_results_txt (process_start [])"
    by blast
  from t1 b o(1) z have 3: "header_written (run user_edits [?ro, ?ro'] (process_start [])) = 0 \<and>
    (\<exists>row. aoa_results_txt (run user_edits ([?ro, ?ro'] @ [?ok]) (process_start []))
       = [] @ [header, Data_line row])"
    by blast
  from d o z 1 2 3 show ?thesis
    by (simp add: process_start_fields)
qed

end
